theory Spec2Isabelle
  imports Complex_Main "HOL-Library.Sublist"
begin

section \<open>The ONNX export script of torchDF (\<^verbatim>\<open>model_onnx_export.py\<close>)\<close>

text \<open>
  The script is a straight line of library calls (torch, onnx, onnxruntime, torchaudio,
  subprocess) with a few decisions of its own: four command line gates, one explicit
  \<^verbatim>\<open>raise\<close> on the simplify gate, one on the exit code of the conversion subprocess,
  the assertions of the correctness test and the list index \<^verbatim>\<open>input_features[1]\<close>.

  The embedding keeps the script's own code as HOL functions and takes every library
  function as a field of an environment record. A library function works on an abstract
  world \<open>'w\<close> (files, the weights and hidden state of the network, the random generator)
  and either returns a value or raises. Every call the script makes is written to a
  trace, with its arguments and its outcome, so that statements such as ``no session is
  built after the failed conversion'' are statements about that trace.
\<close>

subsection \<open>Values\<close>

text \<open>
  A tensor (and a numpy array alike) is its shape and its values in row-major order.
  The script never computes on the values itself: every operation on them (the
  comparison of the test, the channel mean of the audio runner) is a call of the
  library, so the reals here only stand for the floats that are passed around.
  Tensors are passed by value: a library function that overwrote one of its arguments
  in place is outside this model.
\<close>

datatype tensor = Tensor (shape: "nat list") (flat: "real list")

type_synonym handle = nat

text \<open>A Python \<^verbatim>\<open>dict\<close> keeps insertion order; a later value for a key replaces the earlier one.\<close>

type_synonym ('k, 'v) dict = "('k \<times> 'v) list"

fun dict_set :: "('k, 'v) dict \<Rightarrow> 'k \<Rightarrow> 'v \<Rightarrow> ('k, 'v) dict" where
  "dict_set [] k v = [(k, v)]"
| "dict_set ((k', v') # d) k v = (if k' = k then (k, v) # d else (k', v') # dict_set d k v)"

definition dict_of :: "('k \<times> 'v) list \<Rightarrow> ('k, 'v) dict" where
  "dict_of kvs = foldl (\<lambda>d (k, v). dict_set d k v) [] kvs"

type_synonym feed = "(string, tensor) dict"

datatype graph_optimization_level =
  ORT_DISABLE_ALL | ORT_ENABLE_BASIC | ORT_ENABLE_EXTENDED | ORT_ENABLE_ALL

datatype execution_mode = ORT_SEQUENTIAL | ORT_PARALLEL

record sess_options =
  graph_optimization_level :: graph_optimization_level
  optimized_model_filepath :: string
  inter_op_num_threads :: nat
  intra_op_num_threads :: nat
  execution_mode :: execution_mode

text \<open>\<^verbatim>\<open>ort.SessionOptions()\<close>: the defaults of onnxruntime.\<close>

definition SessionOptions :: sess_options where
  "SessionOptions = \<lparr> graph_optimization_level = ORT_ENABLE_ALL,
     optimized_model_filepath = [], inter_op_num_threads = 0, intra_op_num_threads = 0,
     execution_mode = ORT_SEQUENTIAL \<rparr>"

datatype quant_type = QInt8 | QUInt8

text \<open>The keyword arguments of \<^verbatim>\<open>torch.onnx.export\<close> as the script passes them.\<close>

record export_args =
  export_path :: string
  export_verbose :: bool
  input_names :: "string list"
  output_names :: "string list"
  opset_version :: nat
  export_params :: bool
  do_constant_folding :: bool

record args =
  output_path :: string
  simplify :: bool
  test :: bool
  performance :: bool
  inference_path :: "string option"
  ort :: bool
  always_apply_all_stages :: bool

subsection \<open>Errors, library calls and the trace\<close>

datatype assert_msg =
    Msg string
  | OutMismatch string nat tensor tensor
    \<comment> \<open>\<^verbatim>\<open>f"out {name} - {i}, {x.flatten()[-5:]}, {y_tensor.flatten()[-5:]}"\<close>\<close>

datatype error =
    NotImplementedError string
  | RuntimeError string
  | AssertionError assert_msg
  | IndexError
  | AttributeError
  | LibraryError string  \<comment> \<open>an exception raised inside a library call\<close>

text \<open>
  The two callables that stand for the network in the script: the torch module
  \<^verbatim>\<open>torch_streaming_model\<close>, and the lambda of \<open>infer_onnx_model\<close> that runs the
  ONNX session. What each does when called is \<open>run_inference\<close> below.
\<close>

datatype inference = TorchModel | OnnxLambda handle

datatype call =
    TorchDFMinimalPipeline_call string
  | parameters_call
  | torch_rand_call nat
  | torch_randn_call nat
  | model_call inference "tensor list"
  | jit_script_call
  | onnx_export_call export_args
  | onnx_load_call string
  | check_model_call handle bool
  | quant_pre_process_call string string bool
  | quantize_dynamic_call string string quant_type
  | onnxsim_simplify_call handle feed "(string, nat list) dict"
  | onnx_save_model_call handle string
  | subprocess_run_call "string list"
  | InferenceSession_call string sess_options "string list"
  | session_run_call handle "string list" feed
  | allclose_call tensor tensor real
  | tensor_mean_call tensor nat
  | blocked_autorange_call nat nat
  | torchaudio_load_call string bool
  | streaming_pipeline_call inference tensor nat
  | torchaudio_save_call string tensor nat string nat

datatype val =
    VNone
  | VBool bool
  | VInt int
  | VReal real
  | VHandle handle
  | VTensor tensor
  | VTensors "tensor list"
  | VParams "(bool \<times> nat list) list"
  | VSimplified "handle \<times> bool"
  | VAudio "tensor \<times> nat"

datatype message =
    Str string
  | ParamsMsg nat
  | ShapesMsg "nat list list"
  | MedianMsg real real

datatype event =
    Call call "string + val"
  | Print message

text \<open>A library function: from the world to a value or an exception, and the new world.\<close>

type_synonym ('w, 'a) lib = "'w \<Rightarrow> (string + 'a) \<times> 'w"

text \<open>
  A piece of the script: its result or the exception it ends with, the events it
  produced, the new world.
\<close>

type_synonym ('w, 'a) prog = "'w \<Rightarrow> (error + 'a) \<times> event list \<times> 'w"

definition ret :: "'a \<Rightarrow> ('w, 'a) prog" where
  "ret a w = (Inr a, [], w)"

definition throw :: "error \<Rightarrow> ('w, 'a) prog" where
  "throw e w = (Inl e, [], w)"

text \<open>One statement after another: an exception ends the sequence.\<close>

definition seq :: "('w, 'a) prog \<Rightarrow> ('a \<Rightarrow> ('w, 'b) prog) \<Rightarrow> ('w, 'b) prog" where
  "seq m f w =
     (case m w of
        (Inl e, tr, w') \<Rightarrow> (Inl e, tr, w')
      | (Inr a, tr, w') \<Rightarrow> (case f a w' of (r, tr', w'') \<Rightarrow> (r, tr @ tr', w'')))"

text \<open>A library call, written to the trace with its outcome.\<close>

definition ext :: "call \<Rightarrow> ('a \<Rightarrow> val) \<Rightarrow> ('w, 'a) lib \<Rightarrow> ('w, 'a) prog" where
  "ext c as_val f w =
     (case f w of
        (Inl x, w') \<Rightarrow> (Inl (LibraryError x), [Call c (Inl x)], w')
      | (Inr a, w') \<Rightarrow> (Inr a, [Call c (Inr (as_val a))], w'))"

definition print :: "message \<Rightarrow> ('w, unit) prog" where
  "print m w = (Inr (), [Print m], w)"

definition py_assert :: "bool \<Rightarrow> assert_msg \<Rightarrow> ('w, unit) prog" where
  "py_assert b m = (if b then ret () else throw (AssertionError m))"

text \<open>\<^verbatim>\<open>xs[i]\<close> for a non-negative index: IndexError out of range.\<close>

definition py_index :: "'a list \<Rightarrow> nat \<Rightarrow> ('w, 'a) prog" where
  "py_index xs i = (if i < length xs then ret (xs ! i) else throw IndexError)"

text \<open>
  \<^verbatim>\<open>xs[-n:]\<close>: the last \<open>n\<close> elements, all of them when there are fewer; for
  \<open>n = 0\<close> the slice is \<^verbatim>\<open>xs[0:]\<close>, the whole list.
\<close>

definition py_last_n :: "nat \<Rightarrow> 'a list \<Rightarrow> 'a list" where
  "py_last_n n xs = (if n = 0 then xs else drop (length xs - n) xs)"

text \<open>
  \<^verbatim>\<open>s.replace(old, new)\<close>: every occurrence of \<open>old\<close>, found from the left and not
  overlapping, becomes \<open>new\<close>; an empty \<open>old\<close> matches before every character and at
  the end.
\<close>

fun str_replace :: "string \<Rightarrow> string \<Rightarrow> string \<Rightarrow> string" where
  "str_replace old new [] = (if old = [] then new else [])"
| "str_replace old new (c # cs) =
     (if old = [] then new @ c # str_replace old new cs
      else if prefix old (c # cs) then new @ str_replace old new (drop (length old - 1) cs)
      else c # str_replace old new cs)"

subsection \<open>Tensor operations the script uses\<close>

definition flatten :: "tensor \<Rightarrow> tensor" where
  "flatten t = Tensor [length (flat t)] (flat t)"

definition slice_last :: "nat \<Rightarrow> tensor \<Rightarrow> tensor" where
  "slice_last n t = Tensor [length (py_last_n n (flat t))] (py_last_n n (flat t))"

text \<open>\<^verbatim>\<open>t.unsqueeze(0)\<close> adds an axis of length one in front.\<close>

definition unsqueeze0 :: "tensor \<Rightarrow> tensor" where
  "unsqueeze0 t = Tensor (1 # shape t) (flat t)"

text \<open>
  \<^verbatim>\<open>y.detach().cpu().numpy()\<close>, \<^verbatim>\<open>torch.from_numpy(y)\<close> and \<^verbatim>\<open>copy.deepcopy(x)\<close>
  change the container or the sharing of a tensor, not its shape or values.
\<close>

definition detach_cpu_numpy :: "tensor \<Rightarrow> tensor" where
  "detach_cpu_numpy y = y"

definition from_numpy :: "tensor \<Rightarrow> tensor" where
  "from_numpy y = y"

definition deepcopy :: "'a \<Rightarrow> 'a" where
  "deepcopy x = x"

subsection \<open>The library\<close>

type_synonym 'w callable = "tensor list \<Rightarrow> ('w, tensor list) lib"

record 'w env =
  lib_TorchDFMinimalPipeline :: "string \<Rightarrow> ('w, unit) lib"
  lib_torch_streaming_model :: "'w callable"
  lib_parameters :: "('w, (bool \<times> nat list) list) lib"
  lib_torch_rand :: "nat \<Rightarrow> ('w, tensor) lib"
  lib_torch_randn :: "nat \<Rightarrow> ('w, tensor) lib"
  lib_jit_script :: "('w, unit) lib"
  lib_onnx_export :: "export_args \<Rightarrow> ('w, unit) lib"
  lib_onnx_load :: "string \<Rightarrow> ('w, handle) lib"
  lib_check_model :: "handle \<Rightarrow> bool \<Rightarrow> ('w, unit) lib"
  lib_quant_pre_process :: "string \<Rightarrow> string \<Rightarrow> bool \<Rightarrow> ('w, unit) lib"
  lib_quantize_dynamic :: "string \<Rightarrow> string \<Rightarrow> quant_type \<Rightarrow> ('w, unit) lib"
  lib_onnxsim_simplify ::
    "handle \<Rightarrow> feed \<Rightarrow> (string, nat list) dict \<Rightarrow> ('w, handle \<times> bool) lib"
  lib_onnx_save_model :: "handle \<Rightarrow> string \<Rightarrow> ('w, unit) lib"
  lib_subprocess_run :: "string list \<Rightarrow> ('w, int) lib"
  lib_InferenceSession :: "string \<Rightarrow> sess_options \<Rightarrow> string list \<Rightarrow> ('w, handle) lib"
  lib_session_run :: "handle \<Rightarrow> string list \<Rightarrow> feed \<Rightarrow> ('w, tensor list) lib"
  lib_allclose :: "tensor \<Rightarrow> tensor \<Rightarrow> real \<Rightarrow> ('w, bool) lib"
  lib_tensor_mean :: "tensor \<Rightarrow> nat \<Rightarrow> ('w, tensor) lib"
  lib_blocked_autorange :: "('w, unit) lib \<Rightarrow> nat \<Rightarrow> nat \<Rightarrow> ('w, real) lib"
  lib_torchaudio_load :: "string \<Rightarrow> bool \<Rightarrow> ('w, tensor \<times> nat) lib"
  lib_streaming_pipeline :: "'w callable \<Rightarrow> tensor \<Rightarrow> nat \<Rightarrow> ('w, tensor) lib"
  lib_torchaudio_save :: "string \<Rightarrow> tensor \<Rightarrow> nat \<Rightarrow> string \<Rightarrow> nat \<Rightarrow> ('w, unit) lib"

text \<open>Each library function as the script calls it: the call goes to the trace.\<close>

definition TorchDFMinimalPipeline_new :: "'w env \<Rightarrow> string \<Rightarrow> ('w, unit) prog" where
  "TorchDFMinimalPipeline_new env device =
     ext (TorchDFMinimalPipeline_call device) (\<lambda>_. VNone) (lib_TorchDFMinimalPipeline env device)"

definition parameters :: "'w env \<Rightarrow> ('w, (bool \<times> nat list) list) prog" where
  "parameters env = ext parameters_call VParams (lib_parameters env)"

definition torch_rand :: "'w env \<Rightarrow> nat \<Rightarrow> ('w, tensor) prog" where
  "torch_rand env n = ext (torch_rand_call n) VTensor (lib_torch_rand env n)"

definition torch_randn :: "'w env \<Rightarrow> nat \<Rightarrow> ('w, tensor) prog" where
  "torch_randn env n = ext (torch_randn_call n) VTensor (lib_torch_randn env n)"

definition jit_script :: "'w env \<Rightarrow> ('w, unit) prog" where
  "jit_script env = ext jit_script_call (\<lambda>_. VNone) (lib_jit_script env)"

definition onnx_export :: "'w env \<Rightarrow> export_args \<Rightarrow> ('w, unit) prog" where
  "onnx_export env ea = ext (onnx_export_call ea) (\<lambda>_. VNone) (lib_onnx_export env ea)"

definition onnx_load :: "'w env \<Rightarrow> string \<Rightarrow> ('w, handle) prog" where
  "onnx_load env path = ext (onnx_load_call path) VHandle (lib_onnx_load env path)"

definition check_model :: "'w env \<Rightarrow> handle \<Rightarrow> bool \<Rightarrow> ('w, unit) prog" where
  "check_model env model full_check =
     ext (check_model_call model full_check) (\<lambda>_. VNone) (lib_check_model env model full_check)"

definition quant_pre_process :: "'w env \<Rightarrow> string \<Rightarrow> string \<Rightarrow> bool \<Rightarrow> ('w, unit) prog" where
  "quant_pre_process env inp out skip_symbolic_shape =
     ext (quant_pre_process_call inp out skip_symbolic_shape) (\<lambda>_. VNone)
       (lib_quant_pre_process env inp out skip_symbolic_shape)"

definition quantize_dynamic :: "'w env \<Rightarrow> string \<Rightarrow> string \<Rightarrow> quant_type \<Rightarrow> ('w, unit) prog" where
  "quantize_dynamic env inp out weight_type =
     ext (quantize_dynamic_call inp out weight_type) (\<lambda>_. VNone)
       (lib_quantize_dynamic env inp out weight_type)"

definition onnxsim_simplify ::
  "'w env \<Rightarrow> handle \<Rightarrow> feed \<Rightarrow> (string, nat list) dict \<Rightarrow> ('w, handle \<times> bool) prog" where
  "onnxsim_simplify env model input_data input_shapes =
     ext (onnxsim_simplify_call model input_data input_shapes) VSimplified
       (lib_onnxsim_simplify env model input_data input_shapes)"

definition onnx_save_model :: "'w env \<Rightarrow> handle \<Rightarrow> string \<Rightarrow> ('w, unit) prog" where
  "onnx_save_model env model path =
     ext (onnx_save_model_call model path) (\<lambda>_. VNone) (lib_onnx_save_model env model path)"

definition subprocess_run :: "'w env \<Rightarrow> string list \<Rightarrow> ('w, int) prog" where
  "subprocess_run env cmd = ext (subprocess_run_call cmd) VInt (lib_subprocess_run env cmd)"

definition InferenceSession ::
  "'w env \<Rightarrow> string \<Rightarrow> sess_options \<Rightarrow> string list \<Rightarrow> ('w, handle) prog" where
  "InferenceSession env path opts providers =
     ext (InferenceSession_call path opts providers) VHandle
       (lib_InferenceSession env path opts providers)"

definition session_run :: "'w env \<Rightarrow> handle \<Rightarrow> string list \<Rightarrow> feed \<Rightarrow> ('w, tensor list) prog" where
  "session_run env sess names input_feed =
     ext (session_run_call sess names input_feed) VTensors
       (lib_session_run env sess names input_feed)"

definition allclose :: "'w env \<Rightarrow> tensor \<Rightarrow> tensor \<Rightarrow> real \<Rightarrow> ('w, bool) prog" where
  "allclose env x y atol =
     ext (allclose_call x y atol) VBool (lib_allclose env x y atol)"

definition tensor_mean :: "'w env \<Rightarrow> tensor \<Rightarrow> nat \<Rightarrow> ('w, tensor) prog" where
  "tensor_mean env t axis = ext (tensor_mean_call t axis) VTensor (lib_tensor_mean env t axis)"

definition blocked_autorange ::
  "'w env \<Rightarrow> ('w, unit) lib \<Rightarrow> nat \<Rightarrow> nat \<Rightarrow> ('w, real) prog" where
  "blocked_autorange env stmt num_threads min_run_time =
     ext (blocked_autorange_call num_threads min_run_time) VReal
       (lib_blocked_autorange env stmt num_threads min_run_time)"

definition torchaudio_load :: "'w env \<Rightarrow> string \<Rightarrow> bool \<Rightarrow> ('w, tensor \<times> nat) prog" where
  "torchaudio_load env path channels_first =
     ext (torchaudio_load_call path channels_first) VAudio
       (lib_torchaudio_load env path channels_first)"

definition torchaudio_save ::
  "'w env \<Rightarrow> string \<Rightarrow> tensor \<Rightarrow> nat \<Rightarrow> string \<Rightarrow> nat \<Rightarrow> ('w, unit) prog" where
  "torchaudio_save env path audio sr encoding bits_per_sample =
     ext (torchaudio_save_call path audio sr encoding bits_per_sample) (\<lambda>_. VNone)
       (lib_torchaudio_save env path audio sr encoding bits_per_sample)"

subsection \<open>The script\<close>

definition FRAME_SIZE :: nat where
  "FRAME_SIZE = 480"

definition INPUT_NAMES :: "string list" where
  "INPUT_NAMES = [''input_frame'']"

definition OUTPUT_NAMES :: "string list" where
  "OUTPUT_NAMES = [''enhanced_audio_frame'', ''out_states'']"

definition generate_onnx_features :: "tensor list \<Rightarrow> feed" where
  "generate_onnx_features input_features =
     dict_of (map (\<lambda>(x, y). (x, detach_cpu_numpy y)) (zip INPUT_NAMES input_features))"

text \<open>
  Calling one of the two callables. The lambda of \<open>infer_onnx_model\<close> is
  \<^verbatim>\<open>lambda *features: (torch.from_numpy(x) for x in ort_session.run(OUTPUT_NAMES,
  generate_onnx_features(list(features))))\<close>.
\<close>

fun run_inference :: "'w env \<Rightarrow> inference \<Rightarrow> 'w callable" where
  "run_inference env TorchModel features w = lib_torch_streaming_model env features w"
| "run_inference env (OnnxLambda ort_session) features w =
     (case lib_session_run env ort_session OUTPUT_NAMES (generate_onnx_features features) w of
        (Inl x, w') \<Rightarrow> (Inl x, w')
      | (Inr outs, w') \<Rightarrow> (Inr (map from_numpy outs), w'))"

definition call_model :: "'w env \<Rightarrow> inference \<Rightarrow> tensor list \<Rightarrow> ('w, tensor list) prog" where
  "call_model env f features = ext (model_call f features) VTensors (run_inference env f features)"

text \<open>
  The streaming pipeline object, as far as the script touches it: the attribute
  \<^verbatim>\<open>torch_streaming_model\<close>, which \<open>infer_onnx_model\<close> deletes and sets again.
\<close>

record pipeline =
  torch_streaming_model :: "inference option"

definition TorchDFMinimalPipeline :: "'w env \<Rightarrow> string \<Rightarrow> ('w, pipeline) prog" where
  "TorchDFMinimalPipeline env device =
     seq (TorchDFMinimalPipeline_new env device) (\<lambda>_.
     ret \<lparr> torch_streaming_model = Some TorchModel \<rparr>)"

definition get_torch_streaming_model :: "pipeline \<Rightarrow> ('w, inference) prog" where
  "get_torch_streaming_model sp =
     (case torch_streaming_model sp of None \<Rightarrow> throw AttributeError | Some f \<Rightarrow> ret f)"

definition del_torch_streaming_model :: "pipeline \<Rightarrow> ('w, pipeline) prog" where
  "del_torch_streaming_model sp =
     (case torch_streaming_model sp of
        None \<Rightarrow> throw AttributeError
      | Some f \<Rightarrow> ret (sp\<lparr>torch_streaming_model := None\<rparr>))"

definition streaming_pipeline_run ::
  "'w env \<Rightarrow> pipeline \<Rightarrow> tensor \<Rightarrow> nat \<Rightarrow> ('w, tensor) prog" where
  "streaming_pipeline_run env sp audio sr =
     seq (get_torch_streaming_model sp) (\<lambda>f.
     ext (streaming_pipeline_call f audio sr) VTensor
       (lib_streaming_pipeline env (run_inference env f) audio sr))"

definition onnx_simplify ::
  "'w env \<Rightarrow> string \<Rightarrow> feed \<Rightarrow> (string, nat list) dict \<Rightarrow> ('w, string) prog" where
  "onnx_simplify env path input_data input_shapes =
     seq (onnx_load env path) (\<lambda>model.
     seq (onnxsim_simplify env model input_data input_shapes) (\<lambda>(model_simp, check).
     seq (py_assert check (Msg ''Simplified ONNX model could not be validated'')) (\<lambda>_.
     seq (check_model env model_simp True) (\<lambda>_.
     seq (onnx_save_model env model_simp path) (\<lambda>_.
     ret path)))))"

text \<open>The inner loop of the test: \<^verbatim>\<open>for x, y, name in zip(...)\<close>.\<close>

fun check_outputs :: "'w env \<Rightarrow> nat \<Rightarrow> (tensor \<times> tensor \<times> string) list \<Rightarrow> ('w, unit) prog" where
  "check_outputs env i [] = ret ()"
| "check_outputs env i ((x, y, name) # rest) =
     (let y_tensor = from_numpy y in
      seq (allclose env x y_tensor (1 / 100)) (\<lambda>close.
      seq (py_assert close
             (OutMismatch name i (slice_last 5 (flatten x)) (slice_last 5 (flatten y_tensor)))) (\<lambda>_.
      check_outputs env i rest)))"

text \<open>The outer loop: \<^verbatim>\<open>for i in range(30)\<close>, over the list of the indices left.\<close>

fun test_loop ::
  "'w env \<Rightarrow> inference \<Rightarrow> handle \<Rightarrow> tensor \<Rightarrow> tensor \<Rightarrow> nat list \<Rightarrow> ('w, unit) prog" where
  "test_loop env torch_model ort_session states_torch states_onnx [] = ret ()"
| "test_loop env torch_model ort_session states_torch states_onnx (i # is) =
     seq (torch_randn env FRAME_SIZE) (\<lambda>input_frame.
     seq (call_model env torch_model [input_frame, states_torch]) (\<lambda>output_torch.
     seq (session_run env ort_session OUTPUT_NAMES
            (generate_onnx_features [input_frame, states_onnx])) (\<lambda>output_onnx.
     seq (check_outputs env i (zip output_torch (zip output_onnx OUTPUT_NAMES))) (\<lambda>_.
     test_loop env torch_model ort_session states_torch states_onnx is))))"

definition test_onnx_model :: "'w env \<Rightarrow> inference \<Rightarrow> handle \<Rightarrow> tensor \<Rightarrow> ('w, unit) prog" where
  "test_onnx_model env torch_model ort_session states =
     (let states_torch = deepcopy states;
          states_onnx = deepcopy states
      in test_loop env torch_model ort_session states_torch states_onnx [0..<30])"

definition perform_benchmark :: "'w env \<Rightarrow> handle \<Rightarrow> feed \<Rightarrow> ('w, unit) prog" where
  "perform_benchmark env ort_session input_features =
     (let run_onnx = (\<lambda>w. case lib_session_run env ort_session OUTPUT_NAMES input_features w of
                              (Inl x, w') \<Rightarrow> (Inl x, w')
                            | (Inr output, w') \<Rightarrow> (Inr (), w'))
      in seq (blocked_autorange env run_onnx 1 10) (\<lambda>median.
         print (MedianMsg (median * 1000) (480 / 48000 * 1000))))"

definition infer_onnx_model :: "'w env \<Rightarrow> pipeline \<Rightarrow> handle \<Rightarrow> string \<Rightarrow> ('w, unit) prog" where
  "infer_onnx_model env streaming_pipeline ort_session path =
     seq (del_torch_streaming_model streaming_pipeline) (\<lambda>streaming_pipeline.
     let streaming_pipeline =
           streaming_pipeline\<lparr>torch_streaming_model := Some (OnnxLambda ort_session)\<rparr>
     in
     seq (torchaudio_load env path True) (\<lambda>(noisy_audio, sr).
     seq (tensor_mean env noisy_audio 0) (\<lambda>mono.
     let noisy_audio = unsqueeze0 mono in
     seq (streaming_pipeline_run env streaming_pipeline noisy_audio sr) (\<lambda>enhanced_audio.
     torchaudio_save env (str_replace ''.wav'' ''_onnx_infer.wav'' path)
       enhanced_audio sr ''PCM_S'' 16))))"

text \<open>\<^verbatim>\<open>if args.inference_path:\<close> holds for a string that is given and not empty.\<close>

definition truthy :: "string option \<Rightarrow> bool" where
  "truthy p = (case p of None \<Rightarrow> False | Some s \<Rightarrow> s \<noteq> [])"

definition main :: "'w env \<Rightarrow> args \<Rightarrow> ('w, unit) prog" where
  "main env args =
     seq (TorchDFMinimalPipeline env ''cpu'') (\<lambda>streaming_pipeline.
     seq (get_torch_streaming_model streaming_pipeline) (\<lambda>torch_df.
     seq (parameters env) (\<lambda>ps.
     let model_parameters = filter (\<lambda>p. fst p) ps;
         params = sum_list (map (\<lambda>p. prod_list (snd p)) model_parameters)
     in
     seq (print (ParamsMsg (params div 1000000))) (\<lambda>_.
     seq (torch_rand env FRAME_SIZE) (\<lambda>input_frame.
     let input_features = [input_frame] in
     seq (call_model env torch_df input_features) (\<lambda>_.
     seq (jit_script env) (\<lambda>_.
     seq (onnx_export env
            \<lparr> export_path = output_path args, export_verbose = False,
              input_names = INPUT_NAMES, output_names = OUTPUT_NAMES, opset_version = 14,
              export_params = True, do_constant_folding = True \<rparr>) (\<lambda>_.
     seq (print (Str (''Model exported to '' @ output_path args @ ''!''))) (\<lambda>_.
     seq (onnx_load env (output_path args)) (\<lambda>loaded.
     seq (check_model env loaded True) (\<lambda>_.
     seq (print (Str (''Model '' @ output_path args @ '' checked!''))) (\<lambda>_.
     seq (quant_pre_process env (output_path args) (output_path args) False) (\<lambda>_.
     seq (print (Str (''Model preprocessed for quantization - '' @ output_path args @ ''!''))) (\<lambda>_.
     seq (quantize_dynamic env (output_path args) (output_path args) QUInt8) (\<lambda>_.
     seq (print (Str (''Model quantized - '' @ output_path args @ ''!''))) (\<lambda>_.
     let input_features_onnx = generate_onnx_features input_features;
         input_shapes_dict = dict_of (map (\<lambda>(x, y). (x, shape y)) input_features_onnx)
     in
     seq (if simplify args then
            seq (throw (NotImplementedError ''Simplify not working for flatten states!'')) (\<lambda>_ :: unit.
            seq (onnx_simplify env (output_path args) input_features_onnx input_shapes_dict) (\<lambda>_.
            print (Str (''Model simplified! '' @ output_path args))))
          else ret ()) (\<lambda>_.
     seq (if ort args then
            seq (subprocess_run env
                   [''python'', ''-m'', ''onnxruntime.tools.convert_onnx_models_to_ort'',
                    output_path args, ''--optimization_style'', ''Fixed'']) (\<lambda>returncode.
            seq (if returncode \<noteq> 0
                 then throw (RuntimeError ''ONNX to ORT conversion failed!'') else ret ()) (\<lambda>_.
            print (Str ''Model converted to ORT format!'')))
          else ret ()) (\<lambda>_.
     seq (print (Str ''Checking model...'')) (\<lambda>_.
     let sess_options = SessionOptions
           \<lparr> graph_optimization_level := ORT_ENABLE_EXTENDED,
             optimized_model_filepath := output_path args,
             inter_op_num_threads := 1,
             intra_op_num_threads := 1,
             execution_mode := ORT_SEQUENTIAL \<rparr>
     in
     seq (InferenceSession env (output_path args) sess_options [''CPUExecutionProvider'']) (\<lambda>ort_session.
     seq (session_run env ort_session OUTPUT_NAMES input_features_onnx) (\<lambda>onnx_outputs.
     seq (print (ShapesMsg (map shape onnx_outputs))) (\<lambda>_.
     seq (if test args then
            seq (py_index input_features 1) (\<lambda>states.
            seq (test_onnx_model env torch_df ort_session states) (\<lambda>_.
            print (Str ''Tests passed!'')))
          else ret ()) (\<lambda>_.
     seq (if performance args then
            seq (print (Str ''Performanse check...'')) (\<lambda>_.
            perform_benchmark env ort_session input_features_onnx)
          else ret ()) (\<lambda>_.
     if truthy (inference_path args) then
       seq (infer_onnx_model env streaming_pipeline ort_session (the (inference_path args))) (\<lambda>_.
       print (Str (''Audio from '' @ the (inference_path args) @ '' enhanced!'')))
     else ret ()))))))))))))))))))))))))"

section \<open>Runs and what is said about them\<close>

subsection \<open>Reading a run\<close>

definition result_of :: "('w, 'a) prog \<Rightarrow> 'w \<Rightarrow> error + 'a" where
  "result_of m w = fst (m w)"

definition trace_of :: "('w, 'a) prog \<Rightarrow> 'w \<Rightarrow> event list" where
  "trace_of m w = fst (snd (m w))"

text \<open>
  \<open>post m tr0 Q\<close>: whatever the world, when \<open>m\<close> runs after the events \<open>tr0\<close>, its
  result and the trace up to its end satisfy \<open>Q\<close>.
\<close>

definition post ::
  "('w, 'a) prog \<Rightarrow> event list \<Rightarrow> ((error + 'a) \<Rightarrow> event list \<Rightarrow> bool) \<Rightarrow> bool" where
  "post m tr0 Q = (\<forall>w. Q (result_of m w) (tr0 @ trace_of m w))"

fun call_ok :: "event \<Rightarrow> bool" where
  "call_ok (Call c (Inl x)) = False"
| "call_ok e = True"

fun export_fixed :: "args \<Rightarrow> event \<Rightarrow> bool" where
  "export_fixed a (Call (onnx_export_call ea) r) =
     (export_path ea = output_path a \<and> input_names ea = [''input_frame'']
      \<and> output_names ea = [''enhanced_audio_frame'', ''out_states'']
      \<and> opset_version ea = 14)"
| "export_fixed a e = True"

fun is_export :: "event \<Rightarrow> bool" where
  "is_export (Call (onnx_export_call ea) r) = True"
| "is_export e = False"

fun session_fixed :: "args \<Rightarrow> event \<Rightarrow> bool" where
  "session_fixed a (Call (InferenceSession_call path opts providers) r) =
     (path = output_path a \<and> optimized_model_filepath opts = output_path a
      \<and> inter_op_num_threads opts = 1 \<and> intra_op_num_threads opts = 1
      \<and> execution_mode opts = ORT_SEQUENTIAL
      \<and> graph_optimization_level opts = ORT_ENABLE_EXTENDED
      \<and> providers = [''CPUExecutionProvider''])"
| "session_fixed a e = True"

fun is_InferenceSession :: "event \<Rightarrow> bool" where
  "is_InferenceSession (Call (InferenceSession_call path opts providers) r) = True"
| "is_InferenceSession e = False"

text \<open>The calls that only \<open>onnx_simplify\<close> makes.\<close>

fun in_onnx_simplify :: "event \<Rightarrow> bool" where
  "in_onnx_simplify (Call (onnxsim_simplify_call m d s) r) = True"
| "in_onnx_simplify (Call (onnx_save_model_call m p) r) = True"
| "in_onnx_simplify e = False"

fun is_subprocess :: "event \<Rightarrow> bool" where
  "is_subprocess (Call (subprocess_run_call cmd) r) = True"
| "is_subprocess e = False"

fun failed_conversion :: "event \<Rightarrow> bool" where
  "failed_conversion (Call (subprocess_run_call cmd) (Inr (VInt rc))) = (rc \<noteq> 0)"
| "failed_conversion e = False"

fun passed_conversion :: "event \<Rightarrow> bool" where
  "passed_conversion (Call (subprocess_run_call cmd) (Inr (VInt rc))) = (rc = 0)"
| "passed_conversion e = False"

text \<open>The calls of the stages after the conversion: session, test, benchmark, audio.\<close>

fun later_stage :: "event \<Rightarrow> bool" where
  "later_stage (Call (InferenceSession_call p opts ps) r) = True"
| "later_stage (Call (session_run_call s ns fd) r) = True"
| "later_stage (Call (torch_randn_call n) r) = True"
| "later_stage (Call (allclose_call x y a) r) = True"
| "later_stage (Call (blocked_autorange_call n t) r) = True"
| "later_stage (Call (torchaudio_load_call p c) r) = True"
| "later_stage (Call (tensor_mean_call t d) r) = True"
| "later_stage (Call (streaming_pipeline_call f a sr) r) = True"
| "later_stage (Call (torchaudio_save_call p a sr e b) r) = True"
| "later_stage e = False"

text \<open>The calls that only \<open>test_onnx_model\<close> makes, and the message printed after it.\<close>

fun in_test :: "event \<Rightarrow> bool" where
  "in_test (Call (torch_randn_call n) r) = True"
| "in_test (Call (allclose_call x y a) r) = True"
| "in_test (Call (model_call f [x, s]) r) = True"
| "in_test (Print (Str s)) = (s = ''Tests passed!'')"
| "in_test e = False"

fun failed_check :: "event \<Rightarrow> bool" where
  "failed_check (Call (allclose_call x y a) (Inr (VBool b))) = (\<not> b)"
| "failed_check e = False"


text \<open>
  What the test fixes in its calls: the size of the sampled frame and the tolerance of
  the comparison.
\<close>

fun test_call_fixed :: "event \<Rightarrow> bool" where
  "test_call_fixed (Call (torch_randn_call n) r) = (n = 480)"
| "test_call_fixed (Call (allclose_call x y a) r) = (a = 1 / 100)"
| "test_call_fixed e = True"

text \<open>
  The events of one iteration of the test that passes: the frame sampled, the outputs of
  the torch model and of the session on it, and one passed comparison for each pair of
  outputs that \<^verbatim>\<open>zip(output_torch, output_onnx, OUTPUT_NAMES)\<close> forms.
\<close>

definition iteration_events ::
  "inference \<Rightarrow> handle \<Rightarrow> tensor \<Rightarrow> tensor \<times> tensor list \<times> tensor list \<Rightarrow> event list" where
  "iteration_events torch_model ort_session states it =
     (case it of (frame, output_torch, output_onnx) \<Rightarrow>
        [Call (torch_randn_call 480) (Inr (VTensor frame)),
         Call (model_call torch_model [frame, states]) (Inr (VTensors output_torch)),
         Call (session_run_call ort_session [''enhanced_audio_frame'', ''out_states'']
                 [(''input_frame'', frame)]) (Inr (VTensors output_onnx))]
        @ map (\<lambda>(x, y, name). Call (allclose_call x y (1 / 100)) (Inr (VBool True)))
            (zip output_torch (zip output_onnx OUTPUT_NAMES)))"

text \<open>The successful calls of the torch model and of the session in a trace, in order.\<close>

fun torch_calls :: "event list \<Rightarrow> (tensor list \<times> tensor list) list" where
  "torch_calls [] = []"
| "torch_calls (Call (model_call f features) (Inr (VTensors outs)) # tr) =
     (features, outs) # torch_calls tr"
| "torch_calls (e # tr) = torch_calls tr"

fun onnx_calls :: "event list \<Rightarrow> (feed \<times> tensor list) list" where
  "onnx_calls [] = []"
| "onnx_calls (Call (session_run_call s names fd) (Inr (VTensors outs)) # tr) =
     (fd, outs) # onnx_calls tr"
| "onnx_calls (e # tr) = onnx_calls tr"

text \<open>
  State carried forward, as a property of the calls of one pipeline: the state a call
  is given (the second argument of the torch model, some entry of the feed of the
  session) is the state the call before it returned (the output \<open>out_states\<close>, the
  second output).
\<close>

fun torch_state_carried :: "(tensor list \<times> tensor list) list \<Rightarrow> bool" where
  "torch_state_carried ((f1, o1) # (f2, o2) # rest) =
     (1 < length f2 \<and> 1 < length o1 \<and> f2 ! 1 = o1 ! 1
      \<and> torch_state_carried ((f2, o2) # rest))"
| "torch_state_carried cs = True"

fun onnx_state_carried :: "(feed \<times> tensor list) list \<Rightarrow> bool" where
  "onnx_state_carried ((fd1, o1) # (fd2, o2) # rest) =
     (1 < length o1 \<and> o1 ! 1 \<in> snd ` set fd2
      \<and> onnx_state_carried ((fd2, o2) # rest))"
| "onnx_state_carried cs = True"

definition state_carried_forward :: "event list \<Rightarrow> bool" where
  "state_carried_forward tr =
     (torch_state_carried (torch_calls tr) \<and> onnx_state_carried (onnx_calls tr))"

text \<open>What the test passes to the two pipelines.\<close>

fun test_feeds_fixed :: "inference \<Rightarrow> handle \<Rightarrow> tensor \<Rightarrow> event \<Rightarrow> bool" where
  "test_feeds_fixed torch_model ort_session states (Call (model_call f features) r) =
     (f = torch_model \<and> length features = 2 \<and> features ! 1 = states)"
| "test_feeds_fixed torch_model ort_session states (Call (session_run_call s names fd) r) =
     (s = ort_session \<and> names = [''enhanced_audio_frame'', ''out_states'']
      \<and> map fst fd = [''input_frame''])"
| "test_feeds_fixed torch_model ort_session states e = True"

text \<open>The paths a run saves audio to, in order.\<close>

fun saved_paths :: "event list \<Rightarrow> string list" where
  "saved_paths [] = []"
| "saved_paths (Call (torchaudio_save_call p audio sr encoding bits) r # tr) = p # saved_paths tr"
| "saved_paths (e # tr) = saved_paths tr"

subsection \<open>A small library to run the script on\<close>

text \<open>
  A library in which every call of the main pipeline succeeds; its world counts the
  calls made. The network and the session both return the frame they are given and the
  state \<open>[1]\<close>; the sampled frames depend on the world, so no two are equal. The
  comparison does not broadcast: it raises on tensors of different shapes, and compares
  element by element otherwise. The mean is the mean over the first axis.
\<close>

definition first_or_empty :: "tensor list \<Rightarrow> tensor" where
  "first_or_empty ts = (case ts of [] \<Rightarrow> Tensor [0] [] | t # _ \<Rightarrow> t)"

definition demo_allclose :: "tensor \<Rightarrow> tensor \<Rightarrow> real \<Rightarrow> (nat, bool) lib" where
  "demo_allclose x y atol w =
     (if shape x = shape y
      then (Inr (list_all2 (\<lambda>a b. \<bar>a - b\<bar> \<le> atol + \<bar>b\<bar> / 100000) (flat x) (flat y)), w)
      else (Inl ''RuntimeError: the sizes of the tensors must match'', w))"

definition demo_mean :: "tensor \<Rightarrow> tensor" where
  "demo_mean t =
     (case shape t of
        [] \<Rightarrow> t
      | c # rest \<Rightarrow>
          (let n = prod_list rest
           in Tensor rest
                (map (\<lambda>j. sum_list (map (\<lambda>i. flat t ! (i * n + j)) [0..<c]) / real c) [0..<n])))"

definition demo_env :: "nat env" where
  "demo_env =
     \<lparr> lib_TorchDFMinimalPipeline = (\<lambda>device w. (Inr (), Suc w)),
       lib_torch_streaming_model =
         (\<lambda>features w. (Inr [first_or_empty features, Tensor [1] [1]], Suc w)),
       lib_parameters = (\<lambda>w. (Inr [(True, [1000, 2000]), (False, [7])], Suc w)),
       lib_torch_rand = (\<lambda>n w. (Inr (Tensor [n] (replicate n (1 / 2))), Suc w)),
       lib_torch_randn = (\<lambda>n w. (Inr (Tensor [n] (replicate n (real w))), Suc w)),
       lib_jit_script = (\<lambda>w. (Inr (), Suc w)),
       lib_onnx_export = (\<lambda>ea w. (Inr (), Suc w)),
       lib_onnx_load = (\<lambda>path w. (Inr w, Suc w)),
       lib_check_model = (\<lambda>model full_check w. (Inr (), Suc w)),
       lib_quant_pre_process = (\<lambda>inp out skip w. (Inr (), Suc w)),
       lib_quantize_dynamic = (\<lambda>inp out weight_type w. (Inr (), Suc w)),
       lib_onnxsim_simplify = (\<lambda>model input_data input_shapes w. (Inr (Suc model, True), Suc w)),
       lib_onnx_save_model = (\<lambda>model path w. (Inr (), Suc w)),
       lib_subprocess_run = (\<lambda>cmd w. (Inr 0, Suc w)),
       lib_InferenceSession = (\<lambda>path opts providers w. (Inr w, Suc w)),
       lib_session_run =
         (\<lambda>sess names fd w. (Inr [first_or_empty (map snd fd), Tensor [1] [1]], Suc w)),
       lib_allclose = demo_allclose,
       lib_tensor_mean = (\<lambda>t axis w. (Inr (demo_mean t), Suc w)),
       lib_blocked_autorange =
         (\<lambda>stmt num_threads min_run_time w.
            case stmt w of (Inl x, w') \<Rightarrow> (Inl x, w') | (Inr u, w') \<Rightarrow> (Inr (3 / 1000), w')),
       lib_torchaudio_load =
         (\<lambda>path channels_first w. (Inr (Tensor [2, 3] [1, 2, 3, 3, 4, 5], 48000), Suc w)),
       lib_streaming_pipeline =
         (\<lambda>infer audio sr w.
            case infer [audio] w of
              (Inl x, w') \<Rightarrow> (Inl x, w')
            | (Inr outs, w') \<Rightarrow> (Inr (first_or_empty outs), w')),
       lib_torchaudio_save = (\<lambda>path audio sr encoding bits w. (Inr (), Suc w)) \<rparr>"

text \<open>The same library with a session whose first output is off by one half.\<close>

definition demo_env_off :: "nat env" where
  "demo_env_off =
     demo_env\<lparr> lib_session_run :=
       (\<lambda>sess names fd w.
          (Inr [Tensor (shape (first_or_empty (map snd fd)))
                  (map (\<lambda>v. v + 1 / 2) (flat (first_or_empty (map snd fd)))),
                Tensor [1] [1]], Suc w)) \<rparr>"

text \<open>The same library with a network that returns the enhanced frame alone.\<close>

definition demo_env_short :: "nat env" where
  "demo_env_short =
     demo_env\<lparr> lib_torch_streaming_model :=
       (\<lambda>features w. (Inr [first_or_empty features], Suc w)) \<rparr>"

text \<open>The same library with a session whose first output has two values.\<close>

definition demo_env_shape :: "nat env" where
  "demo_env_shape =
     demo_env\<lparr> lib_session_run :=
       (\<lambda>sess names fd w. (Inr [Tensor [2] [0, 0], Tensor [1] [1]], Suc w)) \<rparr>"

text \<open>The same library with a conversion subprocess that exits with code 1.\<close>

definition demo_env_exit1 :: "nat env" where
  "demo_env_exit1 = demo_env\<lparr> lib_subprocess_run := (\<lambda>cmd w. (Inr 1, Suc w)) \<rparr>"

definition demo_states :: tensor where
  "demo_states = Tensor [2] [0, 0]"

definition demo_args :: args where
  "demo_args =
     \<lparr> output_path = ''denoiser_model.onnx'', simplify = False, test = False,
       performance = False, inference_path = None, ort = False,
       always_apply_all_stages = False \<rparr>"

section \<open>Reasoning about runs\<close>

lemma seq_ret [simp]: "seq (ret a) f = f a"
  by (rule ext) (simp add: seq_def ret_def split: prod.splits)

lemma seq_throw [simp]: "seq (throw e) f = throw e"
  by (rule ext) (simp add: seq_def throw_def)

lemma post_ret [simp]: "post (ret a) tr0 Q = Q (Inr a) tr0"
  by (simp add: post_def ret_def result_of_def trace_of_def)

lemma post_throw [simp]: "post (throw e) tr0 Q = Q (Inl e) tr0"
  by (simp add: post_def throw_def result_of_def trace_of_def)

lemma post_print [simp]: "post (print m) tr0 Q = Q (Inr ()) (tr0 @ [Print m])"
  by (simp add: post_def print_def result_of_def trace_of_def)

lemma post_ext:
  assumes "\<And>x. Q (Inl (LibraryError x)) (tr0 @ [Call c (Inl x)])"
    and "\<And>a. Q (Inr a) (tr0 @ [Call c (Inr (v a))])"
  shows "post (ext c v f) tr0 Q"
  unfolding post_def
proof
  fix w
  show "Q (result_of (ext c v f) w) (tr0 @ trace_of (ext c v f) w)"
    using assms by (cases "f w"; cases "fst (f w)") (auto simp: ext_def result_of_def trace_of_def)
qed

lemma post_seq:
  assumes "post m tr0 (\<lambda>r tr. case r of Inl e \<Rightarrow> Q (Inl e) tr | Inr a \<Rightarrow> post (f a) tr Q)"
  shows "post (seq m f) tr0 Q"
  unfolding post_def
proof
  fix w
  obtain r tr w' where m: "m w = (r, tr, w')" by (cases "m w") auto
  from assms have "case result_of m w of Inl e \<Rightarrow> Q (Inl e) (tr0 @ trace_of m w)
      | Inr a \<Rightarrow> post (f a) (tr0 @ trace_of m w) Q"
    unfolding post_def by blast
  then have h: "case r of Inl e \<Rightarrow> Q (Inl e) (tr0 @ tr) | Inr a \<Rightarrow> post (f a) (tr0 @ tr) Q"
    using m by (cases r) (simp_all add: result_of_def trace_of_def)
  show "Q (result_of (seq m f) w) (tr0 @ trace_of (seq m f) w)"
  proof (cases r)
    case (Inl e)
    with h m show ?thesis by (simp add: seq_def result_of_def trace_of_def)
  next
    case (Inr a)
    with h have "Q (result_of (f a) w') ((tr0 @ tr) @ trace_of (f a) w')"
      by (simp add: post_def)
    with Inr m show ?thesis
      by (cases "f a w'") (simp add: seq_def result_of_def trace_of_def)
  qed
qed

lemma post_if:
  assumes "b \<Longrightarrow> post m1 tr0 Q" and "\<not> b \<Longrightarrow> post m2 tr0 Q"
  shows "post (if b then m1 else m2) tr0 Q"
  using assms by simp

lemma postD: "post m [] Q \<Longrightarrow> Q (result_of m w) (trace_of m w)"
  by (simp add: post_def)

lemmas lib_defs = TorchDFMinimalPipeline_new_def parameters_def torch_rand_def torch_randn_def
  jit_script_def onnx_export_def onnx_load_def check_model_def quant_pre_process_def
  quantize_dynamic_def onnxsim_simplify_def onnx_save_model_def subprocess_run_def
  InferenceSession_def session_run_def allclose_def blocked_autorange_def torchaudio_load_def
  torchaudio_save_def call_model_def tensor_mean_def

lemmas script_defs = main_def TorchDFMinimalPipeline_def get_torch_streaming_model_def
  del_torch_streaming_model_def streaming_pipeline_run_def perform_benchmark_def
  infer_onnx_model_def py_index_def Let_def

lemmas run_defs = result_of_def trace_of_def seq_def ext_def ret_def throw_def print_def
  py_assert_def

lemmas demo_defs = demo_env_def demo_env_off_def demo_env_exit1_def demo_args_def
  demo_allclose_def first_or_empty_def

lemmas eval_defs = script_defs lib_defs run_defs demo_defs generate_onnx_features_def
  INPUT_NAMES_def OUTPUT_NAMES_def dict_of_def truthy_def FRAME_SIZE_def detach_cpu_numpy_def
  SessionOptions_def

subsection \<open>The main pipeline, stage by stage\<close>

lemma post_main_export:
  "post (main env args) [] (\<lambda>r tr. list_all (export_fixed args) tr
      \<and> length (filter is_export tr) \<le> 1
      \<and> ((\<forall>x. r \<noteq> Inl (LibraryError x)) \<longrightarrow> length (filter is_export tr) = 1))"
  unfolding script_defs lib_defs
  by (rule post_seq post_ext post_if
       | simp add: INPUT_NAMES_def OUTPUT_NAMES_def case_prod_beta split del: if_split)+

lemma post_main_session:
  "post (main env args) [] (\<lambda>r tr. list_all (session_fixed args) tr
      \<and> length (filter is_InferenceSession tr) \<le> 1
      \<and> (r = Inr () \<longrightarrow> length (filter is_InferenceSession tr) = 1)
      \<and> (Print (Str ''Checking model...'') \<in> set tr
           \<longrightarrow> length (filter is_InferenceSession tr) = 1))"
  unfolding script_defs lib_defs
  by (rule post_seq post_ext post_if
       | simp add: SessionOptions_def case_prod_beta split del: if_split)+

lemma post_main_simplify:
  "post (main env args) [] (\<lambda>r tr.
      list_all (\<lambda>e. \<not> in_onnx_simplify e) tr
      \<and> (simplify args \<longrightarrow>
           (r = Inl (NotImplementedError ''Simplify not working for flatten states!'')
             \<and> list_all (\<lambda>e. \<not> later_stage e \<and> \<not> is_subprocess e) tr
             \<and> last tr = Print (Str (''Model quantized - '' @ output_path args @ ''!'')))
           \<or> (\<exists>x. r = Inl (LibraryError x) \<and> \<not> list_all call_ok tr))
      \<and> (\<not> simplify args \<longrightarrow> (\<forall>m. r \<noteq> Inl (NotImplementedError m))))"
  unfolding script_defs lib_defs
  by (rule post_seq post_ext post_if
       | simp add: case_prod_beta split del: if_split)+

lemma post_main_ort:
  "post (main env args) [] (\<lambda>r tr.
      (list_ex failed_conversion tr \<longrightarrow>
          r = Inl (RuntimeError ''ONNX to ORT conversion failed!'')
          \<and> failed_conversion (last tr)
          \<and> list_all (\<lambda>e. \<not> later_stage e) tr)
      \<and> length (filter is_subprocess tr) \<le> 1
      \<and> (list_ex is_subprocess tr \<longrightarrow> ort args)
      \<and> (list_ex passed_conversion tr \<longrightarrow> list_ex is_InferenceSession tr)
      \<and> (ort args \<and> \<not> simplify args \<and> list_all call_ok tr \<longrightarrow> list_ex is_subprocess tr))"
  unfolding script_defs lib_defs
  by (rule post_seq post_ext post_if
       | simp add: case_prod_beta split del: if_split)+

lemma post_main_test:
  "post (main env args) [] (\<lambda>r tr.
      test args \<longrightarrow>
        list_all (\<lambda>e. \<not> in_test e) tr
        \<and> (\<exists>e. r = Inl e)
        \<and> (\<not> simplify args \<and> \<not> list_ex failed_conversion tr \<and> list_all call_ok tr
             \<longrightarrow> r = Inl IndexError)
        \<and> (r = Inl IndexError \<longrightarrow> (\<exists>shapes. last tr = Print (ShapesMsg shapes))))"
  unfolding script_defs lib_defs
  by (rule post_seq post_ext post_if
       | simp add: case_prod_beta split del: if_split)+

subsection \<open>The correctness test\<close>

lemma seq_Inr_iff:
  "seq m f w = (Inr b, tr, w2) \<longleftrightarrow>
     (\<exists>a tr1 w1 tr2. m w = (Inr a, tr1, w1) \<and> f a w1 = (Inr b, tr2, w2) \<and> tr = tr1 @ tr2)"
  by (auto simp: seq_def split: prod.splits sum.splits)

lemma seq_Inl_iff:
  "seq m f w = (Inl e, tr, w2) \<longleftrightarrow>
     m w = (Inl e, tr, w2)
     \<or> (\<exists>a tr1 w1 tr2. m w = (Inr a, tr1, w1) \<and> f a w1 = (Inl e, tr2, w2) \<and> tr = tr1 @ tr2)"
  by (auto simp: seq_def split: prod.splits sum.splits)

lemma ext_Inr_iff:
  "ext c v f w = (Inr a, tr, w') \<longleftrightarrow> f w = (Inr a, w') \<and> tr = [Call c (Inr (v a))]"
  by (auto simp: ext_def split: prod.splits sum.splits)

lemma ext_Inl_iff:
  "ext c v f w = (Inl e, tr, w') \<longleftrightarrow>
     (\<exists>x. f w = (Inl x, w') \<and> e = LibraryError x \<and> tr = [Call c (Inl x)])"
  by (auto simp: ext_def split: prod.splits sum.splits)

text \<open>One comparison of the test, by its outcome.\<close>

lemma check_outputs_step:
  assumes "check_outputs env i ((x, y, name) # rest) w = (r, tr, w')"
  shows
    "(\<exists>e. r = Inl (LibraryError e) \<and> tr = [Call (allclose_call x y (1 / 100)) (Inl e)])
     \<or> (r = Inl (AssertionError
                   (OutMismatch name i (slice_last 5 (flatten x)) (slice_last 5 (flatten y))))
          \<and> tr = [Call (allclose_call x y (1 / 100)) (Inr (VBool False))])
     \<or> (\<exists>w1 tr2. check_outputs env i rest w1 = (r, tr2, w')
          \<and> tr = Call (allclose_call x y (1 / 100)) (Inr (VBool True)) # tr2)"
proof (cases r)
  case (Inl e)
  with assms show ?thesis
    by (simp add: Let_def from_numpy_def allclose_def py_assert_def seq_Inl_iff seq_Inr_iff
        ext_Inl_iff ext_Inr_iff ret_def throw_def split: if_splits)
      (elim disjE exE conjE; simp; blast)
next
  case (Inr u)
  with assms show ?thesis
    by (simp add: Let_def from_numpy_def allclose_def py_assert_def seq_Inl_iff seq_Inr_iff
        ext_Inl_iff ext_Inr_iff ret_def throw_def split: if_splits)
      (elim disjE exE conjE; simp; blast)
qed

lemma check_outputs_run:
  "check_outputs env i xs w = (r, tr, w') \<Longrightarrow>
     list_all test_call_fixed tr
     \<and> list_all (test_feeds_fixed tm sess st) tr
     \<and> (r = Inr () \<longrightarrow>
          tr = map (\<lambda>(x, y, name). Call (allclose_call x y (1 / 100)) (Inr (VBool True))) xs)
     \<and> (\<forall>m. r = Inl (AssertionError m) \<longrightarrow>
          (\<exists>x y name. (x, y, name) \<in> set xs
             \<and> m = OutMismatch name i (slice_last 5 (flatten x)) (slice_last 5 (flatten y))
             \<and> tr \<noteq> [] \<and> last tr = Call (allclose_call x y (1 / 100)) (Inr (VBool False))))
     \<and> (list_ex failed_check tr \<longleftrightarrow> (\<exists>m. r = Inl (AssertionError m)))
     \<and> (\<not> list_all call_ok tr \<longleftrightarrow> (\<exists>x. r = Inl (LibraryError x)))
     \<and> (r = Inr () \<or> (\<exists>m. r = Inl (AssertionError m)) \<or> (\<exists>x. r = Inl (LibraryError x)))"
proof (induction xs arbitrary: w r tr w')
  case Nil
  then show ?case by (auto simp: ret_def)
next
  case (Cons p xs)
  obtain x y name where p: "p = (x, y, name)" by (cases p) auto
  from check_outputs_step [OF Cons.prems [unfolded p]]
  consider
    (lib) e where "r = Inl (LibraryError e)" "tr = [Call (allclose_call x y (1 / 100)) (Inl e)]"
  | (fail) "r = Inl (AssertionError
                   (OutMismatch name i (slice_last 5 (flatten x)) (slice_last 5 (flatten y))))"
      "tr = [Call (allclose_call x y (1 / 100)) (Inr (VBool False))]"
  | (pass) w1 tr2 where "check_outputs env i xs w1 = (r, tr2, w')"
      "tr = Call (allclose_call x y (1 / 100)) (Inr (VBool True)) # tr2"
    by blast
  then show ?case
  proof cases
    case lib
    then show ?thesis by auto
  next
    case fail
    with p show ?thesis by auto
  next
    case pass
    from Cons.IH [OF pass(1)] pass(2) p show ?thesis
      by auto
  qed
qed

text \<open>One iteration of the loop of the test, by the first step that fails, if one does.\<close>

lemma test_loop_step:
  assumes "test_loop env tm sess st_t st_o (i # is) w = (r, tr, w')"
  shows
    "(\<exists>x. r = Inl (LibraryError x) \<and> tr = [Call (torch_randn_call 480) (Inl x)])
     \<or> (\<exists>frame x. r = Inl (LibraryError x)
           \<and> tr = [Call (torch_randn_call 480) (Inr (VTensor frame)),
                   Call (model_call tm [frame, st_t]) (Inl x)])
     \<or> (\<exists>frame ot x. r = Inl (LibraryError x)
           \<and> tr = [Call (torch_randn_call 480) (Inr (VTensor frame)),
                   Call (model_call tm [frame, st_t]) (Inr (VTensors ot)),
                   Call (session_run_call sess [''enhanced_audio_frame'', ''out_states'']
                           [(''input_frame'', frame)]) (Inl x)])
     \<or> (\<exists>frame ot oo e trc w3 w4.
           check_outputs env i (zip ot (zip oo OUTPUT_NAMES)) w3 = (Inl e, trc, w4)
           \<and> r = Inl e
           \<and> tr = [Call (torch_randn_call 480) (Inr (VTensor frame)),
                   Call (model_call tm [frame, st_t]) (Inr (VTensors ot)),
                   Call (session_run_call sess [''enhanced_audio_frame'', ''out_states'']
                           [(''input_frame'', frame)]) (Inr (VTensors oo))] @ trc)
     \<or> (\<exists>frame ot oo trc w3 w4 tr2.
           check_outputs env i (zip ot (zip oo OUTPUT_NAMES)) w3 = (Inr (), trc, w4)
           \<and> test_loop env tm sess st_t st_o is w4 = (r, tr2, w')
           \<and> tr = [Call (torch_randn_call 480) (Inr (VTensor frame)),
                   Call (model_call tm [frame, st_t]) (Inr (VTensors ot)),
                   Call (session_run_call sess [''enhanced_audio_frame'', ''out_states'']
                           [(''input_frame'', frame)]) (Inr (VTensors oo))] @ trc @ tr2)"
proof (cases r)
  case (Inl e)
  with assms show ?thesis
    by (simp add: seq_Inl_iff seq_Inr_iff ext_Inl_iff ext_Inr_iff torch_randn_def call_model_def
        session_run_def FRAME_SIZE_def generate_onnx_features_def INPUT_NAMES_def dict_of_def
        detach_cpu_numpy_def del: check_outputs.simps)
      (elim disjE exE conjE; simp add: OUTPUT_NAMES_def; blast)
next
  case (Inr u)
  with assms show ?thesis
    by (simp add: seq_Inl_iff seq_Inr_iff ext_Inl_iff ext_Inr_iff torch_randn_def call_model_def
        session_run_def FRAME_SIZE_def generate_onnx_features_def INPUT_NAMES_def dict_of_def
        detach_cpu_numpy_def del: check_outputs.simps)
      (elim disjE exE conjE; simp add: OUTPUT_NAMES_def; blast)
qed


lemma zip_names_in:
  "(x, y, name) \<in> set (zip ot (zip oo OUTPUT_NAMES)) \<Longrightarrow> name \<in> set OUTPUT_NAMES"
  by (auto dest!: set_zip_rightD)

lemma test_loop_run:
  "test_loop env tm sess st_t st_o is w = (r, tr, w') \<Longrightarrow>
     list_all (test_call_fixed) tr
     \<and> list_all (test_feeds_fixed tm sess st_t) tr
     \<and> (r = Inr () \<longrightarrow>
          (\<exists>its. length its = length is \<and> tr = concat (map (iteration_events tm sess st_t) its)))
     \<and> (\<forall>m. r = Inl (AssertionError m) \<longrightarrow>
          (\<exists>x y name i. i \<in> set is \<and> name \<in> set OUTPUT_NAMES
             \<and> m = OutMismatch name i (slice_last 5 (flatten x)) (slice_last 5 (flatten y))
             \<and> tr \<noteq> [] \<and> last tr = Call (allclose_call x y (1 / 100)) (Inr (VBool False))))
     \<and> (list_ex failed_check tr \<longleftrightarrow> (\<exists>m. r = Inl (AssertionError m)))
     \<and> (\<not> list_all call_ok tr \<longleftrightarrow> (\<exists>x. r = Inl (LibraryError x)))
     \<and> (r = Inr () \<or> (\<exists>m. r = Inl (AssertionError m)) \<or> (\<exists>x. r = Inl (LibraryError x)))"
proof (induction "is" arbitrary: w r tr w')
  case Nil
  then show ?case
    by (auto simp: ret_def intro: exI [of _ "[]"])
next
  case (Cons i "is")
  from test_loop_step [OF Cons.prems]
  consider
    (lib) x where "r = Inl (LibraryError x)"
      "tr = [Call (torch_randn_call 480) (Inl x)]
       \<or> (\<exists>frame. tr = [Call (torch_randn_call 480) (Inr (VTensor frame)),
                 Call (model_call tm [frame, st_t]) (Inl x)])
       \<or> (\<exists>frame ot. tr = [Call (torch_randn_call 480) (Inr (VTensor frame)),
                   Call (model_call tm [frame, st_t]) (Inr (VTensors ot)),
                   Call (session_run_call sess [''enhanced_audio_frame'', ''out_states'']
                           [(''input_frame'', frame)]) (Inl x)])"
  | (check) frame ot oo e trc w3 w4 where
      "check_outputs env i (zip ot (zip oo OUTPUT_NAMES)) w3 = (Inl e, trc, w4)"
      "r = Inl e"
      "tr = [Call (torch_randn_call 480) (Inr (VTensor frame)),
             Call (model_call tm [frame, st_t]) (Inr (VTensors ot)),
             Call (session_run_call sess [''enhanced_audio_frame'', ''out_states'']
                     [(''input_frame'', frame)]) (Inr (VTensors oo))] @ trc"
  | (continue) frame ot oo trc w3 w4 tr2 where
      "check_outputs env i (zip ot (zip oo OUTPUT_NAMES)) w3 = (Inr (), trc, w4)"
      "test_loop env tm sess st_t st_o is w4 = (r, tr2, w')"
      "tr = [Call (torch_randn_call 480) (Inr (VTensor frame)),
             Call (model_call tm [frame, st_t]) (Inr (VTensors ot)),
             Call (session_run_call sess [''enhanced_audio_frame'', ''out_states'']
                     [(''input_frame'', frame)]) (Inr (VTensors oo))] @ trc @ tr2"
    by blast
  then show ?case
  proof cases
    case lib
    then show ?thesis by auto
  next
    case check
    note c = check_outputs_run [OF check(1), of tm sess st_t]
    have err: "\<forall>m. r = Inl (AssertionError m) \<longrightarrow>
          (\<exists>x y name i'. i' \<in> set (i # is) \<and> name \<in> set OUTPUT_NAMES
             \<and> m = OutMismatch name i' (slice_last 5 (flatten x)) (slice_last 5 (flatten y))
             \<and> tr \<noteq> [] \<and> last tr = Call (allclose_call x y (1 / 100)) (Inr (VBool False)))"
    proof (intro allI impI)
      fix m
      assume "r = Inl (AssertionError m)"
      with check(2) c obtain x y name where xy:
        "(x, y, name) \<in> set (zip ot (zip oo OUTPUT_NAMES))"
        "m = OutMismatch name i (slice_last 5 (flatten x)) (slice_last 5 (flatten y))"
        "trc \<noteq> []" "last trc = Call (allclose_call x y (1 / 100)) (Inr (VBool False))"
        by blast
      from xy(1) have "name \<in> set OUTPUT_NAMES" by (rule zip_names_in)
      with xy check(3)
      show "\<exists>x y name i'. i' \<in> set (i # is) \<and> name \<in> set OUTPUT_NAMES
             \<and> m = OutMismatch name i' (slice_last 5 (flatten x)) (slice_last 5 (flatten y))
             \<and> tr \<noteq> [] \<and> last tr = Call (allclose_call x y (1 / 100)) (Inr (VBool False))"
        by (intro exI [of _ x] exI [of _ y] exI [of _ name] exI [of _ i]) simp
    qed
    have rest: "list_all test_call_fixed tr
        \<and> list_all (test_feeds_fixed tm sess st_t) tr
        \<and> r \<noteq> Inr ()
        \<and> (list_ex failed_check tr \<longleftrightarrow> (\<exists>m. r = Inl (AssertionError m)))
        \<and> (\<not> list_all call_ok tr \<longleftrightarrow> (\<exists>x. r = Inl (LibraryError x)))
        \<and> (r = Inr () \<or> (\<exists>m. r = Inl (AssertionError m)) \<or> (\<exists>x. r = Inl (LibraryError x)))"
      using c check(2,3) by auto
    from err rest show ?thesis by blast
  next
    case continue
    note c = check_outputs_run [OF continue(1), of tm sess st_t]
    note ih = Cons.IH [OF continue(2)]
    have ok: "r = Inr () \<longrightarrow>
          (\<exists>its. length its = length (i # is)
             \<and> tr = concat (map (iteration_events tm sess st_t) its))"
    proof
      assume "r = Inr ()"
      with ih obtain its where its: "length its = length is"
        "tr2 = concat (map (iteration_events tm sess st_t) its)" by blast
      from c have "trc = map (\<lambda>(x, y, name). Call (allclose_call x y (1 / 100)) (Inr (VBool True)))
                          (zip ot (zip oo OUTPUT_NAMES))" by simp
      with its continue(3)
      have "tr = concat (map (iteration_events tm sess st_t) ((frame, ot, oo) # its))"
        by (simp add: iteration_events_def)
      with its(1) show "\<exists>its. length its = length (i # is)
             \<and> tr = concat (map (iteration_events tm sess st_t) its)"
        by (intro exI [of _ "(frame, ot, oo) # its"]) simp
    qed
    have err: "\<forall>m. r = Inl (AssertionError m) \<longrightarrow>
          (\<exists>x y name i'. i' \<in> set (i # is) \<and> name \<in> set OUTPUT_NAMES
             \<and> m = OutMismatch name i' (slice_last 5 (flatten x)) (slice_last 5 (flatten y))
             \<and> tr \<noteq> [] \<and> last tr = Call (allclose_call x y (1 / 100)) (Inr (VBool False)))"
      using ih continue(3) by (auto; blast)
    have rest: "list_all (test_call_fixed) tr
        \<and> list_all (test_feeds_fixed tm sess st_t) tr
        \<and> (list_ex failed_check tr \<longleftrightarrow> (\<exists>m. r = Inl (AssertionError m)))
        \<and> (\<not> list_all call_ok tr \<longleftrightarrow> (\<exists>x. r = Inl (LibraryError x)))
        \<and> (r = Inr () \<or> (\<exists>m. r = Inl (AssertionError m)) \<or> (\<exists>x. r = Inl (LibraryError x)))"
      using ih c continue(3) by auto
    from ok err rest show ?thesis by blast
  qed
qed

lemma torch_calls_checks:
  "torch_calls (map (\<lambda>(x, y, name). Call (allclose_call x y a) (Inr (VBool b))) xs @ tr)
     = torch_calls tr"
  by (induction xs) auto

lemma onnx_calls_checks:
  "onnx_calls (map (\<lambda>(x, y, name). Call (allclose_call x y a) (Inr (VBool b))) xs @ tr)
     = onnx_calls tr"
  by (induction xs) auto

lemma torch_calls_iterations:
  "torch_calls (concat (map (iteration_events tm sess st) its))
     = map (\<lambda>(frame, ot, oo). ([frame, st], ot)) its"
  by (induction its) (auto simp: iteration_events_def torch_calls_checks)

lemma onnx_calls_iterations:
  "onnx_calls (concat (map (iteration_events tm sess st) its))
     = map (\<lambda>(frame, ot, oo). ([(''input_frame'', frame)], oo)) its"
  by (induction its) (auto simp: iteration_events_def onnx_calls_checks)

lemma test_onnx_model_run:
  "test_onnx_model env tm sess states w = (r, tr, w') \<Longrightarrow>
     list_all (test_call_fixed) tr
     \<and> list_all (test_feeds_fixed tm sess states) tr
     \<and> (r = Inr () \<longrightarrow>
          (\<exists>its. length its = 30 \<and> tr = concat (map (iteration_events tm sess states) its)))
     \<and> (\<forall>m. r = Inl (AssertionError m) \<longrightarrow>
          (\<exists>x y name i. i < 30 \<and> name \<in> set OUTPUT_NAMES
             \<and> m = OutMismatch name i (slice_last 5 (flatten x)) (slice_last 5 (flatten y))
             \<and> tr \<noteq> [] \<and> last tr = Call (allclose_call x y (1 / 100)) (Inr (VBool False))))
     \<and> (list_ex failed_check tr \<longleftrightarrow> (\<exists>m. r = Inl (AssertionError m)))
     \<and> (\<not> list_all call_ok tr \<longleftrightarrow> (\<exists>x. r = Inl (LibraryError x)))
     \<and> (r = Inr () \<or> (\<exists>m. r = Inl (AssertionError m)) \<or> (\<exists>x. r = Inl (LibraryError x)))"
  using test_loop_run [of env tm sess states states "[0..<30]" w r tr w']
  by (simp add: test_onnx_model_def deepcopy_def)

lemma run_triple: "m w = (result_of m w, trace_of m w, snd (snd (m w)))"
  by (simp add: result_of_def trace_of_def)

subsection \<open>The test on the small library\<close>

lemma list_all2_replicate_same:
  "list_all2 P (replicate n a) (replicate n b) \<longleftrightarrow> n = 0 \<or> P a b"
  by (induction n) auto

lemma demo_env_sel:
  "lib_torch_randn demo_env n w = (Inr (Tensor [n] (replicate n (real w))), Suc w)"
  "lib_torch_streaming_model demo_env features w
     = (Inr [first_or_empty features, Tensor [1] [1]], Suc w)"
  "lib_session_run demo_env sess names fd w
     = (Inr [first_or_empty (map snd fd), Tensor [1] [1]], Suc w)"
  "lib_allclose demo_env = demo_allclose"
  "lib_torch_randn demo_env_off n w = (Inr (Tensor [n] (replicate n (real w))), Suc w)"
  "lib_torch_streaming_model demo_env_off features w
     = (Inr [first_or_empty features, Tensor [1] [1]], Suc w)"
  "lib_session_run demo_env_off sess names fd w
     = (Inr [Tensor (shape (first_or_empty (map snd fd)))
               (map (\<lambda>v. v + 1 / 2) (flat (first_or_empty (map snd fd)))),
             Tensor [1] [1]], Suc w)"
  "lib_allclose demo_env_off = demo_allclose"
  "lib_torch_randn demo_env_short n w = (Inr (Tensor [n] (replicate n (real w))), Suc w)"
  "lib_torch_streaming_model demo_env_short features w = (Inr [first_or_empty features], Suc w)"
  "lib_session_run demo_env_short sess names fd w
     = (Inr [first_or_empty (map snd fd), Tensor [1] [1]], Suc w)"
  "lib_allclose demo_env_short = demo_allclose"
  "lib_torch_randn demo_env_shape n w = (Inr (Tensor [n] (replicate n (real w))), Suc w)"
  "lib_torch_streaming_model demo_env_shape features w
     = (Inr [first_or_empty features, Tensor [1] [1]], Suc w)"
  "lib_session_run demo_env_shape sess names fd w
     = (Inr [Tensor [2] [0, 0], Tensor [1] [1]], Suc w)"
  "lib_allclose demo_env_shape = demo_allclose"
  by (simp_all add: demo_env_def demo_env_off_def demo_env_short_def demo_env_shape_def)

lemmas test_eval = torch_randn_def call_model_def session_run_def allclose_def seq_def ext_def
  ret_def throw_def py_assert_def demo_env_sel demo_allclose_def first_or_empty_def
  generate_onnx_features_def INPUT_NAMES_def OUTPUT_NAMES_def dict_of_def detach_cpu_numpy_def
  from_numpy_def FRAME_SIZE_def Let_def list_all2_replicate_same

lemma demo_iteration:
  "test_loop demo_env TorchModel sess st st' (i # is) w =
     (case test_loop demo_env TorchModel sess st st' is (Suc (Suc (Suc w))) of
        (r, tr, w') \<Rightarrow>
          (r, iteration_events TorchModel sess st
                (Tensor [480] (replicate 480 (real w)),
                 [Tensor [480] (replicate 480 (real w)), Tensor [1] [1]],
                 [Tensor [480] (replicate 480 (real w)), Tensor [1] [1]]) @ tr, w'))"
  by (simp add: test_eval iteration_events_def split: prod.splits)

lemma demo_loop_ok: "result_of (test_loop demo_env TorchModel sess st st' is) w = Inr ()"
proof (induction "is" arbitrary: w)
  case Nil
  show ?case by (simp add: result_of_def ret_def)
next
  case (Cons i "is")
  from Cons [of "Suc (Suc (Suc w))"] show ?case
    by (simp add: demo_iteration result_of_def case_prod_beta del: test_loop.simps)
qed

lemma demo_test_ok:
  "result_of (test_onnx_model demo_env TorchModel 0 demo_states) 0 = Inr ()"
  unfolding test_onnx_model_def Let_def by (rule demo_loop_ok)

lemma demo_two_iterations:
  "trace_of (test_loop demo_env TorchModel sess st st' (i # j # is)) w =
     iteration_events TorchModel sess st
       (Tensor [480] (replicate 480 (real w)),
        [Tensor [480] (replicate 480 (real w)), Tensor [1] [1]],
        [Tensor [480] (replicate 480 (real w)), Tensor [1] [1]])
     @ iteration_events TorchModel sess st
       (Tensor [480] (replicate 480 (real (Suc (Suc (Suc w))))),
        [Tensor [480] (replicate 480 (real (Suc (Suc (Suc w))))), Tensor [1] [1]],
        [Tensor [480] (replicate 480 (real (Suc (Suc (Suc w))))), Tensor [1] [1]])
     @ trace_of (test_loop demo_env TorchModel sess st st' is) (Suc (Suc (Suc (Suc (Suc (Suc w))))))"
  by (simp add: demo_iteration trace_of_def case_prod_beta del: test_loop.simps)

lemma demo_loop_not_carried:
  "\<not> onnx_state_carried
       (onnx_calls (trace_of (test_loop demo_env TorchModel sess st st' (i # j # is)) w))"
  by (simp add: demo_two_iterations iteration_events_def OUTPUT_NAMES_def del: test_loop.simps)

lemma upt_30: "\<exists>is. [0..<30::nat] = 0 # Suc 0 # is"
proof -
  have "[0..<30::nat] = 0 # [Suc 0..<30]" by (rule upt_conv_Cons) simp
  moreover have "[Suc 0..<30::nat] = Suc 0 # [Suc (Suc 0)..<30]" by (rule upt_conv_Cons) simp
  ultimately have "[0..<30::nat] = 0 # Suc 0 # [Suc (Suc 0)..<30]" by (simp only:)
  then show ?thesis ..
qed








subsection \<open>The audio runner on the small library\<close>

lemma demo_mean_stereo: "demo_mean (Tensor [2, 3] [1, 2, 3, 3, 4, 5]) = Tensor [3] [2, 3, 4]"
  by (simp add: demo_mean_def upt_conv_Cons)

lemma demo_infer:
  "infer_onnx_model demo_env \<lparr>torch_streaming_model = Some TorchModel\<rparr> 0 path 0 =
     (Inr (),
      [Call (torchaudio_load_call path True)
         (Inr (VAudio (Tensor [2, 3] [1, 2, 3, 3, 4, 5], 48000))),
       Call (tensor_mean_call (Tensor [2, 3] [1, 2, 3, 3, 4, 5]) 0)
         (Inr (VTensor (Tensor [3] [2, 3, 4]))),
       Call (streaming_pipeline_call (OnnxLambda 0) (Tensor [1, 3] [2, 3, 4]) 48000)
         (Inr (VTensor (Tensor [1, 3] [2, 3, 4]))),
       Call (torchaudio_save_call (str_replace ''.wav'' ''_onnx_infer.wav'' path)
               (Tensor [1, 3] [2, 3, 4]) 48000 ''PCM_S'' 16) (Inr VNone)],
      4)"
  by (simp add: infer_onnx_model_def del_torch_streaming_model_def streaming_pipeline_run_def
      get_torch_streaming_model_def torchaudio_load_def torchaudio_save_def tensor_mean_def
      Let_def seq_def ext_def ret_def throw_def demo_env_def first_or_empty_def
      generate_onnx_features_def INPUT_NAMES_def OUTPUT_NAMES_def dict_of_def
      detach_cpu_numpy_def from_numpy_def demo_mean_stereo unsqueeze0_def
      del: str_replace.simps)

section \<open>Properties\<close>

text \<open>
  C6. For every list of input feature tensors, \<open>generate_onnx_features\<close> returns a
  mapping with exactly min(length of INPUT_NAMES, length of the list) entries, which is
  at most one entry, keyed \<open>input_frame\<close> and holding the first feature; every feature
  after the first (a state tensor passed second, say) is dropped and does not reach the
  feed.
\<close>

theorem generate_onnx_features_first_only:
  "length (generate_onnx_features fs) = min (length INPUT_NAMES) (length fs)
   \<and> length (generate_onnx_features fs) \<le> 1
   \<and> map fst (generate_onnx_features fs) = take (length fs) [''input_frame'']
   \<and> generate_onnx_features [] = []
   \<and> generate_onnx_features (f # rest) = [(''input_frame'', f)]
   \<and> generate_onnx_features (f # rest) = generate_onnx_features [f]"
  by (cases fs)
     (simp_all add: generate_onnx_features_def INPUT_NAMES_def dict_of_def detach_cpu_numpy_def)

theorem generate_onnx_features_first_only_witness:
  "generate_onnx_features [Tensor [2] [1, 2], Tensor [1] [7]] = [(''input_frame'', Tensor [2] [1, 2])]
   \<and> length (generate_onnx_features [Tensor [2] [1, 2], Tensor [1] [7]]) = 1"
  using generate_onnx_features_first_only
          [of "[Tensor [2] [1, 2], Tensor [1] [7]]" "Tensor [2] [1, 2]" "[Tensor [1] [7]]"]
  by (simp add: INPUT_NAMES_def)

text \<open>
  C7. Every call of \<^verbatim>\<open>torch.onnx.export\<close> in a run of \<open>main\<close> writes to the output
  path of the command line, with the one input name \<open>input_frame\<close>, the output names
  \<open>enhanced_audio_frame\<close> and \<open>out_states\<close>, and opset version 14. There is at most one
  such call, and exactly one in every run that does not end in an exception of a
  library call.
\<close>

theorem main_export_fixed:
  "list_all (export_fixed args) (trace_of (main env args) w)
   \<and> length (filter is_export (trace_of (main env args) w)) \<le> 1
   \<and> ((\<forall>x. result_of (main env args) w \<noteq> Inl (LibraryError x))
        \<longrightarrow> length (filter is_export (trace_of (main env args) w)) = 1)"
  using postD [OF post_main_export [where env = env and args = args], where w = w] by simp

theorem main_export_fixed_witness:
  "(\<forall>x. result_of (main demo_env demo_args) 0 \<noteq> Inl (LibraryError x))
   \<and> length (filter is_export (trace_of (main demo_env demo_args) 0)) = 1
   \<and> list_all (export_fixed demo_args) (trace_of (main demo_env demo_args) 0)"
  using main_export_fixed [where env = demo_env and args = demo_args and w = 0]
  by (simp add: eval_defs)

text \<open>
  C8. Every inference session a run of \<open>main\<close> constructs is constructed from the output
  path, with one inter-op thread, one intra-op thread, sequential execution, the extended
  level of graph optimization, the CPU execution provider alone, and with the output
  path as the path of the optimized model. There is at most one construction, and exactly
  one in every run that gets to the session stage (it prints \<open>Checking model...\<close>) and
  in every run that ends without an exception.
\<close>

theorem main_session_fixed:
  "list_all (session_fixed args) (trace_of (main env args) w)
   \<and> length (filter is_InferenceSession (trace_of (main env args) w)) \<le> 1
   \<and> (result_of (main env args) w = Inr ()
        \<longrightarrow> length (filter is_InferenceSession (trace_of (main env args) w)) = 1)
   \<and> (Print (Str ''Checking model...'') \<in> set (trace_of (main env args) w)
        \<longrightarrow> length (filter is_InferenceSession (trace_of (main env args) w)) = 1)"
  using postD [OF post_main_session [where env = env and args = args], where w = w] by simp

theorem main_session_fixed_witness:
  "result_of (main demo_env demo_args) 0 = Inr ()
   \<and> Print (Str ''Checking model...'') \<in> set (trace_of (main demo_env demo_args) 0)
   \<and> length (filter is_InferenceSession (trace_of (main demo_env demo_args) 0)) = 1
   \<and> list_all (session_fixed demo_args) (trace_of (main demo_env demo_args) 0)"
  using main_session_fixed [where env = demo_env and args = demo_args and w = 0]
  by (simp add: eval_defs)

text \<open>
  C2. No run of \<open>main\<close> calls the simplification routine. With the simplify flag a run
  ends in the not-implemented error, raised right after the quantization message and
  before any conversion, session, test, benchmark or audio call, unless a library call
  before the gate raised first (then the run ends in that exception); so it ends in the
  not-implemented error whenever no library call of the run raised. Without the flag no
  run ends in a not-implemented error.
\<close>

theorem main_simplify_gate:
  "list_all (\<lambda>e. \<not> in_onnx_simplify e) (trace_of (main env args) w)
   \<and> (simplify args \<longrightarrow>
        (result_of (main env args) w
            = Inl (NotImplementedError ''Simplify not working for flatten states!'')
          \<and> list_all (\<lambda>e. \<not> later_stage e \<and> \<not> is_subprocess e) (trace_of (main env args) w)
          \<and> last (trace_of (main env args) w)
              = Print (Str (''Model quantized - '' @ output_path args @ ''!'')))
        \<or> (\<exists>x. result_of (main env args) w = Inl (LibraryError x)
              \<and> \<not> list_all call_ok (trace_of (main env args) w)))
   \<and> (simplify args \<and> list_all call_ok (trace_of (main env args) w) \<longrightarrow>
        result_of (main env args) w
          = Inl (NotImplementedError ''Simplify not working for flatten states!''))
   \<and> (\<not> simplify args \<longrightarrow> (\<forall>m. result_of (main env args) w \<noteq> Inl (NotImplementedError m)))"
  using postD [OF post_main_simplify [where env = env and args = args], where w = w] by auto

theorem main_simplify_gate_witness:
  "simplify (demo_args\<lparr>simplify := True\<rparr>)
   \<and> list_all call_ok (trace_of (main demo_env (demo_args\<lparr>simplify := True\<rparr>)) 0)
   \<and> result_of (main demo_env (demo_args\<lparr>simplify := True\<rparr>)) 0
       = Inl (NotImplementedError ''Simplify not working for flatten states!'')
   \<and> \<not> simplify demo_args
   \<and> result_of (main demo_env demo_args) 0 = Inr ()"
  using main_simplify_gate [where env = demo_env and args = "demo_args\<lparr>simplify := True\<rparr>" and w = 0]
    main_simplify_gate [where env = demo_env and args = demo_args and w = 0]
  by (simp add: eval_defs)

text \<open>
  C3. When the conversion subprocess of a run of \<open>main\<close> returns a non-zero exit code,
  the run ends in the runtime error \<open>ONNX to ORT conversion failed!\<close>, that call is the
  last event of the run, and the run has no session, test, benchmark or audio call. A
  run calls the subprocess at most once, and only with the ORT flag; with the flag it
  does call it when the simplify flag is off and no library call raised. After an exit
  code of zero the run goes on to construct the inference session.
\<close>

theorem main_conversion_exit_code:
  "(list_ex failed_conversion (trace_of (main env args) w) \<longrightarrow>
      result_of (main env args) w = Inl (RuntimeError ''ONNX to ORT conversion failed!'')
      \<and> failed_conversion (last (trace_of (main env args) w))
      \<and> list_all (\<lambda>e. \<not> later_stage e) (trace_of (main env args) w))
   \<and> length (filter is_subprocess (trace_of (main env args) w)) \<le> 1
   \<and> (list_ex is_subprocess (trace_of (main env args) w) \<longrightarrow> ort args)
   \<and> (list_ex passed_conversion (trace_of (main env args) w)
        \<longrightarrow> list_ex is_InferenceSession (trace_of (main env args) w))
   \<and> (ort args \<and> \<not> simplify args \<and> list_all call_ok (trace_of (main env args) w)
        \<longrightarrow> list_ex is_subprocess (trace_of (main env args) w))"
  using postD [OF post_main_ort [where env = env and args = args], where w = w] by simp

theorem main_conversion_exit_code_witness:
  "list_ex failed_conversion (trace_of (main demo_env_exit1 (demo_args\<lparr>ort := True\<rparr>)) 0)
   \<and> result_of (main demo_env_exit1 (demo_args\<lparr>ort := True\<rparr>)) 0
       = Inl (RuntimeError ''ONNX to ORT conversion failed!'')
   \<and> list_all (\<lambda>e. \<not> later_stage e) (trace_of (main demo_env_exit1 (demo_args\<lparr>ort := True\<rparr>)) 0)
   \<and> ort (demo_args\<lparr>ort := True\<rparr>) \<and> \<not> simplify (demo_args\<lparr>ort := True\<rparr>)
   \<and> list_all call_ok (trace_of (main demo_env (demo_args\<lparr>ort := True\<rparr>)) 0)
   \<and> list_ex passed_conversion (trace_of (main demo_env (demo_args\<lparr>ort := True\<rparr>)) 0)
   \<and> list_ex is_InferenceSession (trace_of (main demo_env (demo_args\<lparr>ort := True\<rparr>)) 0)
   \<and> result_of (main demo_env (demo_args\<lparr>ort := True\<rparr>)) 0 = Inr ()"
  using main_conversion_exit_code [where env = demo_env_exit1 and args = "demo_args\<lparr>ort := True\<rparr>" and w = 0]
    main_conversion_exit_code [where env = demo_env and args = "demo_args\<lparr>ort := True\<rparr>" and w = 0]
  by (simp add: eval_defs)

text \<open>
  C5. The list \<open>input_features\<close> of \<open>main\<close> has one element, so its index 1 is out of
  range. With the test flag every run of \<open>main\<close> ends in an exception and makes none of
  the calls of the test (no frame is sampled, nothing is compared, \<open>Tests passed!\<close> is
  not printed): the run ends in the index error, raised right after the message on the
  output shapes of the session, unless it ended before (simplify gate, failed conversion
  or an exception of a library call).
\<close>

theorem main_test_index_error:
  "result_of (py_index [input_frame :: tensor] 1) w = Inl IndexError
   \<and> (test args \<longrightarrow>
        list_all (\<lambda>e. \<not> in_test e) (trace_of (main env args) w')
        \<and> (\<exists>e. result_of (main env args) w' = Inl e)
        \<and> (\<not> simplify args \<and> \<not> list_ex failed_conversion (trace_of (main env args) w')
              \<and> list_all call_ok (trace_of (main env args) w')
             \<longrightarrow> result_of (main env args) w' = Inl IndexError)
        \<and> (result_of (main env args) w' = Inl IndexError
             \<longrightarrow> (\<exists>shapes. last (trace_of (main env args) w') = Print (ShapesMsg shapes))))"
  using postD [OF post_main_test [where env = env and args = args], where w = w']
  by (simp add: py_index_def result_of_def throw_def)

theorem main_test_index_error_witness:
  "test (demo_args\<lparr>test := True\<rparr>) \<and> \<not> simplify (demo_args\<lparr>test := True\<rparr>)
   \<and> \<not> list_ex failed_conversion (trace_of (main demo_env (demo_args\<lparr>test := True\<rparr>)) 0)
   \<and> list_all call_ok (trace_of (main demo_env (demo_args\<lparr>test := True\<rparr>)) 0)
   \<and> result_of (main demo_env (demo_args\<lparr>test := True\<rparr>)) 0 = Inl IndexError
   \<and> list_all (\<lambda>e. \<not> in_test e) (trace_of (main demo_env (demo_args\<lparr>test := True\<rparr>)) 0)"
  using main_test_index_error [where input_frame = "Tensor [1] [0]" and w = "0::nat" and args = "demo_args\<lparr>test := True\<rparr>" and env = demo_env and w' = 0]
  by (simp add: eval_defs)

text \<open>
  C10. \<open>main\<close> does not read the flag \<open>always_apply_all_stages\<close>: two invocations whose
  arguments differ in that flag alone are the same program, so from every world they
  give the same result, the same events in the same order and the same new world.
\<close>

theorem main_ignores_always_apply_all_stages:
  "main env (args\<lparr>always_apply_all_stages := b\<rparr>) = main env args"
  by (simp add: main_def cong: if_cong)

theorem main_ignores_always_apply_all_stages_witness:
  "main demo_env (demo_args\<lparr>always_apply_all_stages := True\<rparr>) 0 = main demo_env demo_args 0
   \<and> always_apply_all_stages (demo_args\<lparr>always_apply_all_stages := True\<rparr>)
       \<noteq> always_apply_all_stages demo_args"
  using main_ignores_always_apply_all_stages [where env = demo_env and args = demo_args and b = True]
  by (simp add: demo_args_def)




text \<open>
  C4 (as amended). The test carries no state forward. Every call of the torch model in a
  run of \<open>test_onnx_model\<close> is given two arguments, the second being the state the test
  was called with; every session run is given a feed of the single entry \<open>input_frame\<close>
  (\<open>generate_onnx_features\<close> drops the state). In a run that ends without an exception
  there are 30 calls of each, the torch model on the frame and the initial state and the
  session on the feed holding that same frame alone.
\<close>

theorem test_onnx_model_feeds:
  "list_all (test_feeds_fixed tm sess states) (trace_of (test_onnx_model env tm sess states) w)
   \<and> generate_onnx_features [input_frame, states] = [(''input_frame'', input_frame)]
   \<and> (result_of (test_onnx_model env tm sess states) w = Inr () \<longrightarrow>
        (\<exists>its. length its = 30
           \<and> torch_calls (trace_of (test_onnx_model env tm sess states) w)
               = map (\<lambda>(frame, ot, oo). ([frame, states], ot)) its
           \<and> onnx_calls (trace_of (test_onnx_model env tm sess states) w)
               = map (\<lambda>(frame, ot, oo). ([(''input_frame'', frame)], oo)) its))"
proof -
  note run = test_onnx_model_run [OF run_triple [where m = "test_onnx_model env tm sess states" and w = w]]
  have "result_of (test_onnx_model env tm sess states) w = Inr () \<longrightarrow>
        (\<exists>its. length its = 30
           \<and> torch_calls (trace_of (test_onnx_model env tm sess states) w)
               = map (\<lambda>(frame, ot, oo). ([frame, states], ot)) its
           \<and> onnx_calls (trace_of (test_onnx_model env tm sess states) w)
               = map (\<lambda>(frame, ot, oo). ([(''input_frame'', frame)], oo)) its)"
  proof
    assume "result_of (test_onnx_model env tm sess states) w = Inr ()"
    with run obtain its where "length its = 30"
      "trace_of (test_onnx_model env tm sess states) w
         = concat (map (iteration_events tm sess states) its)" by blast
    then show "\<exists>its. length its = 30
           \<and> torch_calls (trace_of (test_onnx_model env tm sess states) w)
               = map (\<lambda>(frame, ot, oo). ([frame, states], ot)) its
           \<and> onnx_calls (trace_of (test_onnx_model env tm sess states) w)
               = map (\<lambda>(frame, ot, oo). ([(''input_frame'', frame)], oo)) its"
      by (intro exI [of _ its]) (simp add: torch_calls_iterations onnx_calls_iterations)
  qed
  with run show ?thesis
    by (simp add: generate_onnx_features_def INPUT_NAMES_def dict_of_def detach_cpu_numpy_def)
qed

theorem test_onnx_model_feeds_witness:
  "result_of (test_onnx_model demo_env TorchModel 0 demo_states) 0 = Inr ()
   \<and> (\<exists>its. length its = 30
         \<and> torch_calls (trace_of (test_onnx_model demo_env TorchModel 0 demo_states) 0)
             = map (\<lambda>(frame, ot, oo). ([frame, demo_states], ot)) its
         \<and> onnx_calls (trace_of (test_onnx_model demo_env TorchModel 0 demo_states) 0)
             = map (\<lambda>(frame, ot, oo). ([(''input_frame'', frame)], oo)) its)"
  using test_onnx_model_feeds [of TorchModel 0 demo_states demo_env 0]
    demo_test_ok
  by simp

text \<open>
  On the small library the network returns the state \<open>[1]\<close>, which is not the state
  given to the next call of the torch model (still the initial one) and is not in the
  next feed of the session (the new frame alone): state is not carried forward in either
  pipeline, in particular not in the session's.
\<close>

theorem test_state_not_carried_forward:
  "\<not> state_carried_forward (trace_of (test_onnx_model demo_env TorchModel 0 demo_states) 0)
   \<and> \<not> onnx_state_carried
         (onnx_calls (trace_of (test_onnx_model demo_env TorchModel 0 demo_states) 0))"
proof -
  from upt_30 obtain "is" where "[0..<30::nat] = 0 # Suc 0 # is" ..
  then have "\<not> onnx_state_carried
         (onnx_calls (trace_of (test_onnx_model demo_env TorchModel 0 demo_states) 0))"
    unfolding test_onnx_model_def Let_def deepcopy_def
    by (simp only: demo_loop_not_carried not_False_eq_True)
  then show ?thesis by (simp add: state_carried_forward_def)
qed

text \<open>
  C9. The audio runner saves the enhanced audio to the inference path with every
  \<open>.wav\<close> in it replaced by \<open>_onnx_infer.wav\<close>. For \<open>noisy.wav\<close> that is
  \<open>noisy_onnx_infer.wav\<close>, beside the input file. For a path without \<open>.wav\<close> in lower
  case, such as \<open>noisy.flac\<close> or \<open>NOISY.WAV\<close>, nothing is replaced and the runner saves
  to the input path itself.
\<close>

theorem infer_onnx_model_saves_over_input:
  "saved_paths (trace_of (infer_onnx_model demo_env \<lparr>torch_streaming_model = Some TorchModel\<rparr>
                  0 ''noisy.flac'') 0) = [''noisy.flac'']
   \<and> saved_paths (trace_of (infer_onnx_model demo_env \<lparr>torch_streaming_model = Some TorchModel\<rparr>
                  0 ''NOISY.WAV'') 0) = [''NOISY.WAV'']
   \<and> saved_paths (trace_of (infer_onnx_model demo_env \<lparr>torch_streaming_model = Some TorchModel\<rparr>
                  0 ''noisy.wav'') 0) = [''noisy_onnx_infer.wav'']"
  by (simp add: trace_of_def demo_infer)

end
